theory Spec2Isabelle
  imports Complex_Main
begin

section \<open>Python values and errors\<close>

text \<open>
  The repository is Python. Integers are unbounded (\<open>int\<close>); the numbers read from the
  JSON files and the weight-decay coefficients are Python floats, idealised here as
  \<open>real\<close> (rounding is not modelled). Every \<open>raise\<close>, failed \<open>assert\<close>, failed
  subscript and failed division of the source is a value \<open>Inl e\<close> of the result type.
\<close>

datatype error =
    ValueError
  | IndexError
  | KeyError
  | ZeroDivisionError
  | AssertionError

section \<open>Tensor handles (\<open>model/resnet2.py\<close>)\<close>

text \<open>
  \<open>resnet2.py\<close> builds a TensorFlow computation graph: every library call consumes
  tensor handles and produces a new one. A handle is modelled as the term of library
  calls that produced it, each constructor carrying exactly the arguments the source
  passes. What the library does inside one call (its variables, its default arguments,
  its construction-time shape validation) is not part of the repository and is not
  modelled; \<open>print\<close> in \<open>conv2d_fixed_padding\<close> only writes to standard output and is
  left out.
\<close>

datatype padding = SAME | VALID

datatype tensor =
    Placeholder "int option list"
      \<comment> \<open>an input handle with its static shape (\<open>None\<close> is an unknown dimension)\<close>
  | Pad tensor "(int \<times> int) list"
      \<comment> \<open>\<open>tf.pad(inputs, paddings)\<close>\<close>
  | Conv2d tensor int int int padding real
      \<comment> \<open>\<open>tf.contrib.layers.conv2d(inputs, num_outputs, kernel_size, stride, padding,
          weights_regularizer=l2_regularizer(weight_decay))\<close>\<close>
  | BatchNormalization tensor real real bool bool bool bool
      \<comment> \<open>\<open>tf.layers.batch_normalization(inputs, momentum, epsilon, center, scale,
          training, fused)\<close>\<close>
  | Relu tensor
      \<comment> \<open>\<open>tf.nn.relu(inputs)\<close>\<close>
  | Add tensor tensor
      \<comment> \<open>\<open>a + b\<close> on tensors\<close>
  | Identity tensor string
      \<comment> \<open>\<open>tf.identity(inputs, name)\<close>\<close>
  | MaxPooling2d tensor int int padding
      \<comment> \<open>\<open>tf.layers.max_pooling2d(inputs, pool_size, strides, padding)\<close>\<close>
  | AveragePooling2d tensor int int padding
      \<comment> \<open>\<open>tf.layers.average_pooling2d(inputs, pool_size, strides, padding)\<close>\<close>
  | Flatten tensor
      \<comment> \<open>\<open>tf.contrib.layers.flatten(inputs)\<close>\<close>
  | FullyConnected tensor int real
      \<comment> \<open>\<open>tf.contrib.layers.fully_connected(inputs, num_outputs,
          weights_regularizer=l2_regularizer(weight_decay))\<close>\<close>

subsection \<open>Convenience functions\<close>

definition BATCH_NORM_DECAY :: real where
  "BATCH_NORM_DECAY = 997 / 1000"

definition BATCH_NORM_EPSILON :: real where
  "BATCH_NORM_EPSILON = 1 / 100000"


definition batch_norm :: "tensor \<Rightarrow> bool \<Rightarrow> tensor" where
  "batch_norm inputs training =
     BatchNormalization inputs BATCH_NORM_DECAY BATCH_NORM_EPSILON True True training True"

definition fixed_padding :: "tensor \<Rightarrow> int \<Rightarrow> tensor" where
  "fixed_padding inputs kernel_size =
     (let pad_total = kernel_size - 1;
          pad_beg = pad_total div 2;
          pad_end = pad_total - pad_beg;
          padded_inputs = Pad inputs [(0, 0), (pad_beg, pad_end), (pad_beg, pad_end), (0, 0)]
      in padded_inputs)"

definition conv2d_fixed_padding :: "tensor \<Rightarrow> int \<Rightarrow> int \<Rightarrow> int \<Rightarrow> real \<Rightarrow> tensor" where
  "conv2d_fixed_padding inputs filters kernel_size strides weight_decay =
     (let inputs = (if strides > 1 then fixed_padding inputs kernel_size else inputs)
      in Conv2d inputs filters kernel_size strides
           (if strides = 1 then SAME else VALID) weight_decay)"

subsection \<open>ResNet block definitions\<close>

text \<open>
  A projection shortcut is a function of the input handle and the weight decay; the
  blocks receive \<open>None\<close> or such a function. The leading underscore of the Python names
  of the four blocks is dropped.
\<close>

type_synonym projection = "tensor \<Rightarrow> real \<Rightarrow> tensor"

type_synonym block_function =
  "tensor \<Rightarrow> int \<Rightarrow> bool \<Rightarrow> projection option \<Rightarrow> int \<Rightarrow> real \<Rightarrow> tensor"

definition building_block_v1 :: block_function where
  "building_block_v1 inputs filters training projection_shortcut strides weight_decay =
     (let shortcut = inputs;
          shortcut = (case projection_shortcut of
                        None \<Rightarrow> shortcut
                      | Some p \<Rightarrow>
                          (let shortcut = p inputs weight_decay
                           in batch_norm shortcut training));
          inputs = conv2d_fixed_padding inputs filters 3 strides weight_decay;
          inputs = batch_norm inputs training;
          inputs = Relu inputs;
          inputs = conv2d_fixed_padding inputs filters 3 1 weight_decay;
          inputs = batch_norm inputs training;
          inputs = Add inputs shortcut;
          inputs = Relu inputs
      in inputs)"

definition building_block_v2 :: block_function where
  "building_block_v2 inputs filters training projection_shortcut strides weight_decay =
     (let shortcut = inputs;
          inputs = batch_norm inputs training;
          inputs = Relu inputs;
          shortcut = (case projection_shortcut of
                        None \<Rightarrow> shortcut
                      | Some p \<Rightarrow> p inputs weight_decay);
          inputs = conv2d_fixed_padding inputs filters 3 strides weight_decay;
          inputs = batch_norm inputs training;
          inputs = Relu inputs;
          inputs = conv2d_fixed_padding inputs filters 3 1 weight_decay
      in Add inputs shortcut)"

definition bottleneck_block_v1 :: block_function where
  "bottleneck_block_v1 inputs filters training projection_shortcut strides weight_decay =
     (let shortcut = inputs;
          shortcut = (case projection_shortcut of
                        None \<Rightarrow> shortcut
                      | Some p \<Rightarrow>
                          (let shortcut = p inputs weight_decay
                           in batch_norm shortcut training));
          inputs = conv2d_fixed_padding inputs filters 1 1 weight_decay;
          inputs = batch_norm inputs training;
          inputs = Relu inputs;
          inputs = conv2d_fixed_padding inputs filters 3 strides weight_decay;
          inputs = batch_norm inputs training;
          inputs = Relu inputs;
          inputs = conv2d_fixed_padding inputs (4 * filters) 1 1 weight_decay;
          inputs = batch_norm inputs training;
          inputs = Add inputs shortcut;
          inputs = Relu inputs
      in inputs)"

definition bottleneck_block_v2 :: block_function where
  "bottleneck_block_v2 inputs filters training projection_shortcut strides weight_decay =
     (let shortcut = inputs;
          inputs = batch_norm inputs training;
          inputs = Relu inputs;
          shortcut = (case projection_shortcut of
                        None \<Rightarrow> shortcut
                      | Some p \<Rightarrow> p inputs weight_decay);
          inputs = conv2d_fixed_padding inputs filters 1 1 weight_decay;
          inputs = batch_norm inputs training;
          inputs = Relu inputs;
          inputs = conv2d_fixed_padding inputs filters 3 strides weight_decay;
          inputs = batch_norm inputs training;
          inputs = Relu inputs;
          inputs = conv2d_fixed_padding inputs (4 * filters) 1 1 weight_decay
      in Add inputs shortcut)"

subsection \<open>One layer of blocks\<close>

text \<open>
  The closure \<open>projection_shortcut\<close> of \<open>block_layer\<close> captures \<open>filters_out\<close> and
  \<open>strides\<close>; it is a function of its own here, taking both explicitly.
\<close>

definition projection_shortcut :: "int \<Rightarrow> int \<Rightarrow> projection" where
  "projection_shortcut filters_out strides inputs weight_decay =
     conv2d_fixed_padding inputs filters_out 1 strides weight_decay"

text \<open>
  The loop \<open>for _ in range(1, blocks)\<close>: \<open>block_layer_loop n\<close> runs its body \<open>n\<close> times;
  \<open>range(1, blocks)\<close> has \<open>blocks - 1\<close> elements, and none when \<open>blocks \<le> 1\<close>.
\<close>

fun block_layer_loop ::
  "nat \<Rightarrow> block_function \<Rightarrow> int \<Rightarrow> bool \<Rightarrow> real \<Rightarrow> tensor \<Rightarrow> tensor" where
  "block_layer_loop 0 block_fn filters training weight_decay inputs = inputs"
| "block_layer_loop (Suc n) block_fn filters training weight_decay inputs =
     block_layer_loop n block_fn filters training weight_decay
       (block_fn inputs filters training None 1 weight_decay)"

definition block_layer ::
  "tensor \<Rightarrow> int \<Rightarrow> bool \<Rightarrow> block_function \<Rightarrow> int \<Rightarrow> int \<Rightarrow> bool \<Rightarrow> string \<Rightarrow> real \<Rightarrow> tensor" where
  "block_layer inputs filters bottleneck block_fn blocks strides training name weight_decay =
     (let filters_out = (if bottleneck then filters * 4 else filters);
          inputs = block_fn inputs filters training
                     (Some (projection_shortcut filters_out strides)) strides weight_decay;
          inputs = block_layer_loop (nat (blocks - 1)) block_fn filters training
                     weight_decay inputs
      in Identity inputs name)"

subsection \<open>The model\<close>

record Model =
  resnet_version :: int
  bottleneck :: bool
  block_fn :: block_function
  num_classes :: int
  num_filters :: int
  kernel_size :: int
  conv_stride :: int
  first_pool_size :: "int option"
  first_pool_stride :: int
  second_pool_size :: int
  second_pool_stride :: int
  block_sizes :: "int list"
  block_strides :: "int list"
  final_size :: int
  weight_decay :: real

text \<open>\<open>Model.__init__\<close>: the only failure is the check of \<open>version\<close>.\<close>

definition Model_init ::
  "bool \<Rightarrow> int \<Rightarrow> int \<Rightarrow> int \<Rightarrow> int \<Rightarrow> int option \<Rightarrow> int \<Rightarrow> int \<Rightarrow> int \<Rightarrow> int list \<Rightarrow> int list
     \<Rightarrow> int \<Rightarrow> int \<Rightarrow> real \<Rightarrow> error + Model" where
  "Model_init bottleneck' num_classes' num_filters' kernel_size' conv_stride'
     first_pool_size' first_pool_stride' second_pool_size' second_pool_stride'
     block_sizes' block_strides' final_size' version weight_decay' =
     (if \<not> (version = 1 \<or> version = 2) then Inl ValueError
      else Inr \<lparr>
        resnet_version = version,
        bottleneck = bottleneck',
        block_fn =
          (if bottleneck' then
             (if version = 1 then bottleneck_block_v1 else bottleneck_block_v2)
           else
             (if version = 1 then building_block_v1 else building_block_v2)),
        num_classes = num_classes',
        num_filters = num_filters',
        kernel_size = kernel_size',
        conv_stride = conv_stride',
        first_pool_size = first_pool_size',
        first_pool_stride = first_pool_stride',
        second_pool_size = second_pool_size',
        second_pool_stride = second_pool_stride',
        block_sizes = block_sizes',
        block_strides = block_strides',
        final_size = final_size',
        weight_decay = weight_decay' \<rparr>)"






subsection \<open>Static shapes\<close>

text \<open>
  Modelled from the spec: TensorFlow's static shape inference behind
  \<open>images.get_shape().as_list()\<close> is library code outside the repository. Section 4.1 of
  the specification gives the output size of a convolution: \<open>floor((H' - k) / s) + 1\<close>
  for an input dimension \<open>H'\<close> (already padded) under \<open>VALID\<close> padding, and the input
  size for unit stride under \<open>SAME\<close> padding, which is the case \<open>s = 1\<close> of the
  library's rule \<open>ceil(H / s)\<close>. A dimension is \<open>None\<close> where it is unknown or where the
  library defines no output size (stride or kernel below one, kernel larger than the
  input under \<open>VALID\<close>). Pooling windows follow the same rule; normalisation, activation
  and \<open>tf.identity\<close> keep the shape; \<open>tf.pad\<close> adds both paddings to a dimension.
\<close>

definition conv_out :: "padding \<Rightarrow> int \<Rightarrow> int \<Rightarrow> int option \<Rightarrow> int option" where
  "conv_out pad k s d =
     (case d of
        None \<Rightarrow> None
      | Some n \<Rightarrow>
          if s < 1 \<or> k < 1 then None
          else (case pad of
                  SAME \<Rightarrow> Some (- ((- n) div s))
                | VALID \<Rightarrow> if n < k then None else Some ((n - k) div s + 1)))"

definition pad_dim :: "int option \<Rightarrow> int \<times> int \<Rightarrow> int option" where
  "pad_dim d p = map_option (\<lambda>n. n + fst p + snd p) d"

definition unknown_shape :: "int option list \<Rightarrow> int option list" where
  "unknown_shape sh = map (\<lambda>d. None) sh"

definition window_shape :: "padding \<Rightarrow> int \<Rightarrow> int \<Rightarrow> int option \<Rightarrow> int option list \<Rightarrow> int option list" where
  "window_shape pad k s channels sh =
     (case sh of
        [n, h, w, c] \<Rightarrow>
          [n, conv_out pad k s h, conv_out pad k s w,
           (case channels of None \<Rightarrow> c | Some f \<Rightarrow> Some f)]
      | _ \<Rightarrow> unknown_shape sh)"

fun flat_size :: "int option list \<Rightarrow> int option" where
  "flat_size [] = Some 1"
| "flat_size (None # ds) = None"
| "flat_size (Some n # ds) = map_option (\<lambda>m. n * m) (flat_size ds)"

fun get_shape :: "tensor \<Rightarrow> int option list" where
  "get_shape (Placeholder sh) = sh"
| "get_shape (Pad x paddings) = map2 pad_dim (get_shape x) paddings"
| "get_shape (Conv2d x filters k s pad wd) = window_shape pad k s (Some filters) (get_shape x)"
| "get_shape (BatchNormalization x momentum epsilon center scale training fused) = get_shape x"
| "get_shape (Relu x) = get_shape x"
| "get_shape (Add a b) =
     (if get_shape a = get_shape b then get_shape a else unknown_shape (get_shape a))"
| "get_shape (Identity x name) = get_shape x"
| "get_shape (MaxPooling2d x k s pad) = window_shape pad k s None (get_shape x)"
| "get_shape (AveragePooling2d x k s pad) = window_shape pad k s None (get_shape x)"
| "get_shape (Flatten x) =
     (case get_shape x of [] \<Rightarrow> [] | n # ds \<Rightarrow> [n, flat_size ds])"
| "get_shape (FullyConnected x n wd) = butlast (get_shape x) @ [Some n]"

subsection \<open>Building the network from the parameters\<close>

text \<open>
  The \<open>params\<close> object is loaded from \<open>params.json\<close>; \<open>build_resnet_\<close> reads the fields
  below (prefixed with \<open>p_\<close> here, the names being those of the \<open>Model\<close>). The record is
  extensible: whatever else the object carries sits in its extension, which
  \<open>params_with_version\<close> instantiates with a \<open>version\<close> field. \<open>inputs\<close> is a dictionary
  of tensor handles. \<open>build_resnet\<close> is the source's \<open>build_resnet_\<close> (a name cannot end
  with an underscore here).
\<close>

record params =
  p_bottleneck :: bool
  p_num_classes :: int
  p_num_filters :: int
  p_kernel_size :: int
  p_conv_stride :: int
  p_first_pool_size :: "int option"
  p_first_pool_stride :: int
  p_second_pool_size :: int
  p_second_pool_stride :: int
  p_block_sizes :: "int list"
  p_block_strides :: "int list"
  p_weight_decay :: real
  p_image_size :: int

record params_with_version = params +
  p_version :: int


section \<open>Aggregated metrics (\<open>synthesize_results.py\<close>)\<close>

text \<open>
  A Python dictionary keeps its keys in insertion order, and \<open>metrics_to_table\<close> depends
  on that order (the headers are the keys of the first entry), so a dictionary is an
  association list. \<open>d[k]\<close> raises \<open>KeyError\<close> on a missing key; \<open>d[k] = v\<close> replaces
  the value of a key in place and appends a new key at the end.
\<close>

type_synonym 'v dict = "(string \<times> 'v) list"

fun dict_getitem :: "'v dict \<Rightarrow> string \<Rightarrow> error + 'v" where
  "dict_getitem [] k = Inl KeyError"
| "dict_getitem ((k', v) # d) k = (if k' = k then Inr v else dict_getitem d k)"

fun dict_setitem :: "'v dict \<Rightarrow> string \<Rightarrow> 'v \<Rightarrow> 'v dict" where
  "dict_setitem [] k v = [(k, v)]"
| "dict_setitem ((k', v') # d) k v =
     (if k' = k then (k, v) # d else (k', v') # dict_setitem d k v)"

text \<open>
  The first loop of \<open>metrics_to_table\<close>, over \<open>list(metrics.keys())\<close>; the entries hold
  numbers. The division raises \<open>ZeroDivisionError\<close> on a zero divisor.
\<close>

fun F2_loop :: "string list \<Rightarrow> real dict dict \<Rightarrow> error + real dict dict" where
  "F2_loop [] metrics = Inr metrics"
| "F2_loop (metric # keys) metrics =
     (case dict_getitem metrics metric of
        Inl e \<Rightarrow> Inl e
      | Inr entry \<Rightarrow>
          (case dict_getitem entry ''precision'' of
             Inl e \<Rightarrow> Inl e
           | Inr precision \<Rightarrow>
               (case dict_getitem entry ''recall'' of
                  Inl e \<Rightarrow> Inl e
                | Inr recall \<Rightarrow>
                    if 4 * precision + recall = 0 then Inl ZeroDivisionError
                    else (let F2_metric = 5 * precision * recall / (4 * precision + recall)
                          in F2_loop keys
                               (dict_setitem metrics metric
                                  (dict_setitem entry ''F2'' F2_metric))))))"

text \<open>\<open>[values[h] for h in headers]\<close> and the rows of the table.\<close>

fun row_values :: "string list \<Rightarrow> real dict \<Rightarrow> error + real list" where
  "row_values [] values = Inr []"
| "row_values (h # headers) values =
     (case dict_getitem values h of
        Inl e \<Rightarrow> Inl e
      | Inr v \<Rightarrow>
          (case row_values headers values of
             Inl e \<Rightarrow> Inl e
           | Inr vs \<Rightarrow> Inr (v # vs)))"

fun table_rows :: "string list \<Rightarrow> real dict dict \<Rightarrow> error + (string \<times> real list) list" where
  "table_rows headers [] = Inr []"
| "table_rows headers ((subdir, values) # metrics) =
     (case row_values headers values of
        Inl e \<Rightarrow> Inl e
      | Inr vs \<Rightarrow>
          (case table_rows headers metrics of
             Inl e \<Rightarrow> Inl e
           | Inr rows \<Rightarrow> Inr ((subdir, vs) # rows)))"

text \<open>
  The rendering \<open>tabulate(table, headers, tablefmt='pipe')\<close> is a library call, kept as
  the term of its arguments. The LaTeX table is only printed and is left out.
  \<open>metrics_to_table\<close> returns the dictionary as the loop has left it, with the rendered
  table.
\<close>

datatype table_text = Tabulate "(string \<times> real list) list" "string list" string

definition metrics_to_table :: "real dict dict \<Rightarrow> error + real dict dict \<times> table_text" where
  "metrics_to_table metrics =
     (case F2_loop (map fst metrics) metrics of
        Inl e \<Rightarrow> Inl e
      | Inr metrics \<Rightarrow>
          (case metrics of
             [] \<Rightarrow> Inl IndexError
           | first # _ \<Rightarrow>
               (let headers = map fst (snd first)
                in case table_rows headers metrics of
                     Inl e \<Rightarrow> Inl e
                   | Inr table \<Rightarrow> Inr (metrics, Tabulate table headers ''pipe''))))"

section \<open>The label vocabularies (\<open>train.py\<close>)\<close>

text \<open>
  \<open>tag_str.split(' ')\<close> cuts at every single space; two spaces in a row, or a space at
  either end, give an empty label.
\<close>

fun split_space :: "string \<Rightarrow> string list" where
  "split_space [] = [[]]"
| "split_space (c # cs) =
     (if c = CHR '' '' then [] # split_space cs
      else (case split_space cs of
              [] \<Rightarrow> [[c]]
            | w # ws \<Rightarrow> (c # w) # ws))"

text \<open>
  The loops that build \<open>label_list[i]\<close>: the inner one over the labels of one tag
  string, the outer one over the tag strings of a split.
\<close>

fun add_labels :: "string list \<Rightarrow> string list \<Rightarrow> string list" where
  "add_labels label_list_i [] = label_list_i"
| "add_labels label_list_i (label # labels) =
     add_labels (if label \<in> set label_list_i then label_list_i else label_list_i @ [label])
       labels"

fun add_tags :: "string list \<Rightarrow> string list \<Rightarrow> string list" where
  "add_tags label_list_i [] = label_list_i"
| "add_tags label_list_i (tag_str # tags) =
     add_tags (add_labels label_list_i (split_space tag_str)) tags"

text \<open>
  The two lists of the train and dev splits and the assertion on them, from the
  \<open>tags\<close> columns of the two CSV files.
\<close>

definition label_list :: "string list \<Rightarrow> string list \<Rightarrow> string list \<times> string list" where
  "label_list train_tags eval_tags = (add_tags [] train_tags, add_tags [] eval_tags)"

definition check_label_list ::
  "string list \<Rightarrow> string list \<Rightarrow> error + string list \<times> string list" where
  "check_label_list train_tags eval_tags =
     (let ll = label_list train_tags eval_tags
      in if length (fst ll) = length (snd ll) then Inr ll else Inl AssertionError)"

section \<open>Properties of the network construction\<close>

subsection \<open>The result of a call of the model\<close>








subsection \<open>The blocks of a layer\<close>

lemma block_layer_loop_foldl:
  "block_layer_loop n blk filters training w inputs =
     foldl (\<lambda>x (p, s). blk x filters training p s w) inputs
       (replicate n (None, 1))"
  by (induction n arbitrary: inputs) simp_all

text \<open>
  Claim C2. For \<open>blocks \<ge> 1\<close> and any block function, \<open>block_layer\<close> is the chain of
  exactly \<open>blocks\<close> invocations of the block function: the first with the projection
  shortcut (the 1x1 convolution to \<open>filters * 4\<close> channels if bottleneck, else to
  \<open>filters\<close>, with the stage's strides) and the stage's strides, every later one with no
  projection and strides 1.
\<close>

theorem block_layer_first_block_only:
  assumes "1 \<le> blocks"
  shows "\<exists>calls.
     block_layer inputs filters bneck blk blocks strides training name w
       = Identity (foldl (\<lambda>x (p, s). blk x filters training p s w) inputs calls) name
     \<and> int (length calls) = blocks
     \<and> calls = (Some (\<lambda>x wd. conv2d_fixed_padding x (if bneck then filters * 4 else filters) 1 strides wd), strides)
               # replicate (nat (blocks - 1)) (None, 1)"
proof -
  have p: "projection_shortcut (if bneck then filters * 4 else filters) strides
    = (\<lambda>x wd. conv2d_fixed_padding x (if bneck then filters * 4 else filters) 1 strides wd)"
    by (rule ext, rule ext) (simp add: projection_shortcut_def)
  show ?thesis
    using assms
    by (simp add: block_layer_def Let_def block_layer_loop_foldl p del: replicate.simps)
qed

theorem block_layer_first_block_only_witness:
  "(1::int) \<le> 3 \<and>
   block_layer (Placeholder [None, Some 8, Some 8, Some 16]) 16 False building_block_v2 3 2 True
       ''block_layer2'' (1 / 1000)
     = Identity
         (building_block_v2
            (building_block_v2
               (building_block_v2 (Placeholder [None, Some 8, Some 8, Some 16]) 16 True
                  (Some (\<lambda>x wd. conv2d_fixed_padding x 16 1 2 wd)) 2 (1 / 1000))
               16 True None 1 (1 / 1000))
            16 True None 1 (1 / 1000))
         ''block_layer2''"
  using block_layer_first_block_only [of 3 "Placeholder [None, Some 8, Some 8, Some 16]" 16
      False building_block_v2 2 True "''block_layer2''" "1 / 1000"]
  by (simp add: eval_nat_numeral)

subsection \<open>The shortcut of a block\<close>

text \<open>
  Claim C3. In \<open>_building_block_v1\<close> and \<open>_bottleneck_block_v1\<close> the second operand of
  the addition that joins the two paths is the input itself when no projection is
  supplied, and batch normalisation applied to the projection of the input (projection
  first, normalisation of its result) when one is.
\<close>

theorem v1_shortcut_normalised_projection:
  "building_block_v1 x filters training proj strides w =
     Relu (Add
       (batch_norm
          (conv2d_fixed_padding
             (Relu (batch_norm (conv2d_fixed_padding x filters 3 strides w) training))
             filters 3 1 w)
          training)
       (case proj of None \<Rightarrow> x | Some p \<Rightarrow> batch_norm (p x w) training))
   \<and>
   bottleneck_block_v1 x filters training proj strides w =
     Relu (Add
       (batch_norm
          (conv2d_fixed_padding
             (Relu (batch_norm
                (conv2d_fixed_padding
                   (Relu (batch_norm (conv2d_fixed_padding x filters 1 1 w) training))
                   filters 3 strides w)
                training))
             (4 * filters) 1 1 w)
          training)
       (case proj of None \<Rightarrow> x | Some p \<Rightarrow> batch_norm (p x w) training))"
  by (cases proj) (simp_all add: building_block_v1_def bottleneck_block_v1_def Let_def)

text \<open>
  Claim C4. In \<open>_building_block_v2\<close> and \<open>_bottleneck_block_v2\<close> the shortcut is the
  raw input when no projection is supplied and the projection of the normalised and
  activated input when one is; the block returns the sum of the main path and the
  shortcut, with nothing applied to the sum.
\<close>

theorem v2_shortcut_preactivated_projection:
  "building_block_v2 x filters training proj strides w =
     Add
       (conv2d_fixed_padding
          (Relu (batch_norm
             (conv2d_fixed_padding (Relu (batch_norm x training)) filters 3 strides w)
             training))
          filters 3 1 w)
       (case proj of None \<Rightarrow> x | Some p \<Rightarrow> p (Relu (batch_norm x training)) w)
   \<and>
   bottleneck_block_v2 x filters training proj strides w =
     Add
       (conv2d_fixed_padding
          (Relu (batch_norm
             (conv2d_fixed_padding
                (Relu (batch_norm
                   (conv2d_fixed_padding (Relu (batch_norm x training)) filters 1 1 w)
                   training))
                filters 3 strides w)
             training))
          (4 * filters) 1 1 w)
       (case proj of None \<Rightarrow> x | Some p \<Rightarrow> p (Relu (batch_norm x training)) w)"
  by (cases proj) (simp_all add: building_block_v2_def bottleneck_block_v2_def Let_def)

subsection \<open>The padded convolution\<close>

lemma ceil_div:
  fixes H s :: int
  assumes "0 < s"
  shows "(H - 1) div s + 1 = \<lceil>real_of_int H / real_of_int s\<rceil>"
proof -
  define q where "q = (H - 1) div s"
  define r where "r = (H - 1) mod s"
  have e: "H - 1 = s * q + r" by (simp add: q_def r_def)
  have r: "0 \<le> r" "r < s" using assms by (simp_all add: r_def)
  have "- H = s * (- (q + 1)) + (s - 1 - r)" using e by (simp add: algebra_simps)
  moreover have "0 \<le> s - 1 - r" "s - 1 - r < s" using r by simp_all
  ultimately have "(- H) div s = - (q + 1)" by (rule int_div_pos_eq)
  then have "- ((- H) div s) = (H - 1) div s + 1" by (simp add: q_def)
  then show ?thesis by (simp add: ceiling_divide_eq_div)
qed

text \<open>
  Claim C5. For an input of spatial size \<open>H x W\<close> with \<open>H, W \<ge> 1\<close> and a kernel size
  \<open>k \<ge> 1\<close>: with strides 1, \<open>conv2d_fixed_padding\<close> keeps the spatial size; with
  strides \<open>s > 1\<close> it pads each spatial dimension by \<open>k - 1\<close> in total, \<open>(k - 1) div 2\<close>
  before and the rest after, convolves with \<open>VALID\<close> padding, and the output size is
  \<open>floor((H + (k - 1) - k) / s) + 1\<close>, which is \<open>ceil(H / s)\<close>.
\<close>

theorem conv2d_fixed_padding_spatial_size:
  assumes "1 \<le> H" and "1 \<le> W" and "1 \<le> k"
    and "get_shape x = [n, Some H, Some W, c]"
  shows
    "get_shape (conv2d_fixed_padding x filters k 1 w) = [n, Some H, Some W, Some filters] \<and>
     (1 < s \<longrightarrow>
        conv2d_fixed_padding x filters k s w =
          Conv2d (Pad x [(0, 0), ((k - 1) div 2, (k - 1) - (k - 1) div 2),
                         ((k - 1) div 2, (k - 1) - (k - 1) div 2), (0, 0)])
            filters k s VALID w \<and>
        get_shape (fixed_padding x k) = [n, Some (H + (k - 1)), Some (W + (k - 1)), c] \<and>
        get_shape (conv2d_fixed_padding x filters k s w) =
          [n, Some ((H + (k - 1) - k) div s + 1), Some ((W + (k - 1) - k) div s + 1),
           Some filters] \<and>
        (H + (k - 1) - k) div s + 1 = \<lceil>real_of_int H / real_of_int s\<rceil> \<and>
        (W + (k - 1) - k) div s + 1 = \<lceil>real_of_int W / real_of_int s\<rceil>)"
proof (intro conjI impI)
  show "get_shape (conv2d_fixed_padding x filters k 1 w) = [n, Some H, Some W, Some filters]"
    using assms
    by (simp add: conv2d_fixed_padding_def window_shape_def conv_out_def)
next
  assume s: "1 < s"
  then show "conv2d_fixed_padding x filters k s w =
          Conv2d (Pad x [(0, 0), ((k - 1) div 2, (k - 1) - (k - 1) div 2),
                         ((k - 1) div 2, (k - 1) - (k - 1) div 2), (0, 0)])
            filters k s VALID w"
    by (simp add: conv2d_fixed_padding_def fixed_padding_def Let_def)
  show p: "get_shape (fixed_padding x k) = [n, Some (H + (k - 1)), Some (W + (k - 1)), c]"
    using assms by (simp add: fixed_padding_def Let_def pad_dim_def option.map_ident)
  show "get_shape (conv2d_fixed_padding x filters k s w) =
          [n, Some ((H + (k - 1) - k) div s + 1), Some ((W + (k - 1) - k) div s + 1),
           Some filters]"
    using assms s p
    by (simp add: conv2d_fixed_padding_def window_shape_def conv_out_def)
  have "0 < s" using s by simp
  then show "(H + (k - 1) - k) div s + 1 = \<lceil>real_of_int H / real_of_int s\<rceil>"
    and "(W + (k - 1) - k) div s + 1 = \<lceil>real_of_int W / real_of_int s\<rceil>"
    using ceil_div [of s H] ceil_div [of s W] by simp_all
qed

theorem conv2d_fixed_padding_spatial_size_witness:
  "(1::int) \<le> 32 \<and> (1::int) \<le> 3 \<and> (1::int) < 2 \<and>
   get_shape (Placeholder [None, Some 32, Some 32, Some 3]) = [None, Some 32, Some 32, Some 3] \<and>
   get_shape (conv2d_fixed_padding (Placeholder [None, Some 32, Some 32, Some 3]) 8 3 1 (1 / 1000))
     = [None, Some 32, Some 32, Some 8] \<and>
   get_shape (fixed_padding (Placeholder [None, Some 32, Some 32, Some 3]) 3)
     = [None, Some 34, Some 34, Some 3] \<and>
   get_shape (conv2d_fixed_padding (Placeholder [None, Some 32, Some 32, Some 3]) 8 3 2 (1 / 1000))
     = [None, Some 16, Some 16, Some 8] \<and>
   \<lceil>real_of_int 32 / real_of_int 2\<rceil> = (16::int)"
  using conv2d_fixed_padding_spatial_size [of 32 32 3
      "Placeholder [None, Some 32, Some 32, Some 3]" None "Some 3" 8 "1 / 1000" 2]
  by (simp add: window_shape_def conv_out_def pad_dim_def)

subsection \<open>Construction of the model\<close>

lemma block_functions_distinct:
  "distinct [building_block_v1, building_block_v2, bottleneck_block_v1, bottleneck_block_v2]"
proof -
  let ?at = "\<lambda>f :: block_function. f (Placeholder []) 1 False None 1 0"
  have "?at building_block_v1 \<noteq> ?at building_block_v2"
       "?at building_block_v1 \<noteq> ?at bottleneck_block_v1"
       "?at building_block_v1 \<noteq> ?at bottleneck_block_v2"
       "?at building_block_v2 \<noteq> ?at bottleneck_block_v1"
       "?at building_block_v2 \<noteq> ?at bottleneck_block_v2"
       "?at bottleneck_block_v1 \<noteq> ?at bottleneck_block_v2"
    by (simp_all add: building_block_v1_def building_block_v2_def bottleneck_block_v1_def
          bottleneck_block_v2_def conv2d_fixed_padding_def batch_norm_def Let_def)
  then show ?thesis by auto
qed

text \<open>
  Claim C6. \<open>Model.__init__\<close> raises (a \<open>ValueError\<close>) exactly when \<open>version\<close> is
  neither 1 nor 2; for version 1 or 2 it returns a model whose block function is
  determined by \<open>version\<close> and \<open>bottleneck\<close> alone, among the four block functions.
\<close>

theorem Model_init_version_check:
  "(Model_init bneck nc nf ks cs fps fpst sps spst sizes strds fs version w = Inl ValueError
      \<longleftrightarrow> version \<noteq> 1 \<and> version \<noteq> 2) \<and>
   ((\<exists>e. Model_init bneck nc nf ks cs fps fpst sps spst sizes strds fs version w = Inl e)
      \<longleftrightarrow> version \<noteq> 1 \<and> version \<noteq> 2) \<and>
   (version = 1 \<or> version = 2 \<longrightarrow>
      (\<exists>m. Model_init bneck nc nf ks cs fps fpst sps spst sizes strds fs version w = Inr m \<and>
           resnet_version m = version \<and> bottleneck m = bneck \<and>
           block_fn m =
             (if version = 1 \<and> \<not> bneck then building_block_v1
              else if version = 2 \<and> \<not> bneck then building_block_v2
              else if version = 1 \<and> bneck then bottleneck_block_v1
              else bottleneck_block_v2)))"
  by (auto simp: Model_init_def)

theorem Model_init_version_check_witness:
  "((2::int) = 1 \<or> (2::int) = 2) \<and>
   (\<exists>m. Model_init False 17 8 3 1 None 2 4 1 [2, 2] [1, 2] 17 2 (1 / 1000) = Inr m \<and>
        resnet_version m = 2 \<and> block_fn m = building_block_v2) \<and>
   Model_init True 17 8 3 1 None 2 4 1 [2, 2] [1, 2] 17 3 (1 / 1000) = Inl ValueError"
  using Model_init_version_check [of False 17 8 3 1 None 2 4 1 "[2, 2]" "[1, 2]" 17 2 "1 / 1000"]
        Model_init_version_check [of True 17 8 3 1 None 2 4 1 "[2, 2]" "[1, 2]" 17 3 "1 / 1000"]
  by auto



section \<open>Properties of the metrics table\<close>

lemma dict_getitem_setitem:
  "dict_getitem (dict_setitem d k v) k' = (if k' = k then Inr v else dict_getitem d k')"
  by (induction d) auto

lemma dict_setitem_keys:
  "dict_getitem d k = Inr v \<Longrightarrow> map fst (dict_setitem d k v') = map fst d"
  by (induction d) (auto split: if_splits)

lemma dict_getitem_mem:
  "distinct (map fst d) \<Longrightarrow> (k, v) \<in> set d \<longleftrightarrow> dict_getitem d k = Inr v"
  by (induction d) (auto simp: rev_image_eqI split: if_splits)

lemma dict_getitem_keys:
  "(\<exists>v. dict_getitem d k = Inr v) \<longleftrightarrow> k \<in> set (map fst d)"
  by (induction d) auto

lemma F2_loop_step:
  assumes "dict_getitem metrics k = Inr e"
    and "dict_getitem e ''precision'' = Inr p"
    and "dict_getitem e ''recall'' = Inr r"
  shows "F2_loop (k # keys) metrics =
     (if 4 * p + r = 0 then Inl ZeroDivisionError
      else F2_loop keys
             (dict_setitem metrics k (dict_setitem e ''F2'' (5 * p * r / (4 * p + r)))))"
  using assms by (simp add: Let_def)

lemma F2_loop_Inr:
  assumes "distinct keys"
    and "\<forall>k\<in>set keys. \<exists>e p r. dict_getitem metrics k = Inr e \<and>
           dict_getitem e ''precision'' = Inr p \<and> dict_getitem e ''recall'' = Inr r \<and>
           4 * p + r \<noteq> 0"
  shows "\<exists>metrics'. F2_loop keys metrics = Inr metrics' \<and>
           map fst metrics' = map fst metrics \<and>
           (\<forall>k. k \<notin> set keys \<longrightarrow> dict_getitem metrics' k = dict_getitem metrics k) \<and>
           (\<forall>k\<in>set keys. \<forall>e p r. dict_getitem metrics k = Inr e \<and>
              dict_getitem e ''precision'' = Inr p \<and> dict_getitem e ''recall'' = Inr r \<longrightarrow>
              dict_getitem metrics' k
                = Inr (dict_setitem e ''F2'' (5 * p * r / (4 * p + r))))"
  using assms
proof (induction keys arbitrary: metrics)
  case Nil
  then show ?case by simp
next
  case (Cons k keys)
  from Cons.prems obtain e p r where
    e: "dict_getitem metrics k = Inr e" and p: "dict_getitem e ''precision'' = Inr p"
    and r: "dict_getitem e ''recall'' = Inr r" and nz: "4 * p + r \<noteq> 0"
    by auto
  define m1 where "m1 = dict_setitem metrics k (dict_setitem e ''F2'' (5 * p * r / (4 * p + r)))"
  have step: "F2_loop (k # keys) metrics = F2_loop keys m1"
    using F2_loop_step [OF e p r] nz by (simp add: m1_def)
  have k: "k \<notin> set keys" and d: "distinct keys" using Cons.prems(1) by simp_all
  have same: "\<And>k'. k' \<noteq> k \<Longrightarrow> dict_getitem m1 k' = dict_getitem metrics k'"
    by (simp add: m1_def dict_getitem_setitem)
  have "\<forall>k'\<in>set keys. \<exists>e p r. dict_getitem m1 k' = Inr e \<and>
           dict_getitem e ''precision'' = Inr p \<and> dict_getitem e ''recall'' = Inr r \<and>
           4 * p + r \<noteq> 0"
  proof
    fix k' assume "k' \<in> set keys"
    with k have "k' \<noteq> k" by auto
    with same have "dict_getitem m1 k' = dict_getitem metrics k'" by simp
    with Cons.prems(2) \<open>k' \<in> set keys\<close>
    show "\<exists>e p r. dict_getitem m1 k' = Inr e \<and>
           dict_getitem e ''precision'' = Inr p \<and> dict_getitem e ''recall'' = Inr r \<and>
           4 * p + r \<noteq> 0" by simp
  qed
  from Cons.IH [OF d this] obtain m' where
    m': "F2_loop keys m1 = Inr m'" "map fst m' = map fst m1"
        "\<forall>k. k \<notin> set keys \<longrightarrow> dict_getitem m' k = dict_getitem m1 k"
        "\<forall>k\<in>set keys. \<forall>e p r. dict_getitem m1 k = Inr e \<and>
              dict_getitem e ''precision'' = Inr p \<and> dict_getitem e ''recall'' = Inr r \<longrightarrow>
              dict_getitem m' k = Inr (dict_setitem e ''F2'' (5 * p * r / (4 * p + r)))"
    by blast
  have 1: "F2_loop (k # keys) metrics = Inr m'" using step m'(1) by simp
  have 2: "map fst m' = map fst metrics"
    using m'(2) dict_setitem_keys [OF e] by (simp add: m1_def)
  have 3: "\<forall>k'. k' \<notin> set (k # keys) \<longrightarrow> dict_getitem m' k' = dict_getitem metrics k'"
    using m'(3) same by simp
  have 4: "\<forall>k'\<in>set (k # keys). \<forall>e p r. dict_getitem metrics k' = Inr e \<and>
              dict_getitem e ''precision'' = Inr p \<and> dict_getitem e ''recall'' = Inr r \<longrightarrow>
              dict_getitem m' k' = Inr (dict_setitem e ''F2'' (5 * p * r / (4 * p + r)))"
  proof (intro ballI allI impI)
    fix k' e' p' r'
    assume k': "k' \<in> set (k # keys)"
      and h: "dict_getitem metrics k' = Inr e' \<and>
              dict_getitem e' ''precision'' = Inr p' \<and> dict_getitem e' ''recall'' = Inr r'"
    show "dict_getitem m' k' = Inr (dict_setitem e' ''F2'' (5 * p' * r' / (4 * p' + r')))"
    proof (cases "k' = k")
      case True
      with h e p r have "e' = e" "p' = p" "r' = r" by simp_all
      moreover have "dict_getitem m' k = dict_getitem m1 k" using m'(3) k by simp
      ultimately show ?thesis using True by (simp add: m1_def dict_getitem_setitem)
    next
      case False
      with k' have "k' \<in> set keys" by simp
      moreover have "dict_getitem m1 k' = Inr e'" using same [OF False] h by simp
      ultimately show ?thesis using m'(4) h by blast
    qed
  qed
  from 1 2 3 4 show ?case by blast
qed

lemma F2_loop_Inl:
  assumes "distinct keys"
    and "\<forall>k\<in>set keys. \<exists>e p r. dict_getitem metrics k = Inr e \<and>
           dict_getitem e ''precision'' = Inr p \<and> dict_getitem e ''recall'' = Inr r"
    and "\<exists>k\<in>set keys. \<exists>e p r. dict_getitem metrics k = Inr e \<and>
           dict_getitem e ''precision'' = Inr p \<and> dict_getitem e ''recall'' = Inr r \<and>
           4 * p + r = 0"
  shows "F2_loop keys metrics = Inl ZeroDivisionError"
  using assms
proof (induction keys arbitrary: metrics)
  case Nil
  then show ?case by simp
next
  case (Cons k keys)
  from Cons.prems(2) obtain e p r where
    e: "dict_getitem metrics k = Inr e" and p: "dict_getitem e ''precision'' = Inr p"
    and r: "dict_getitem e ''recall'' = Inr r"
    by auto
  show ?case
  proof (cases "4 * p + r = 0")
    case True
    then show ?thesis using F2_loop_step [OF e p r] by simp
  next
    case False
    define m1 where "m1 = dict_setitem metrics k (dict_setitem e ''F2'' (5 * p * r / (4 * p + r)))"
    have step: "F2_loop (k # keys) metrics = F2_loop keys m1"
      using F2_loop_step [OF e p r] False by (simp add: m1_def)
    have k: "k \<notin> set keys" and d: "distinct keys" using Cons.prems(1) by simp_all
    have same: "\<And>k'. k' \<in> set keys \<Longrightarrow> dict_getitem m1 k' = dict_getitem metrics k'"
      using k by (auto simp: m1_def dict_getitem_setitem)
    have a: "\<forall>k\<in>set keys. \<exists>e p r. dict_getitem m1 k = Inr e \<and>
           dict_getitem e ''precision'' = Inr p \<and> dict_getitem e ''recall'' = Inr r"
      using Cons.prems(2) same by simp
    from Cons.prems(3) obtain k0 e0 p0 r0 where
      z: "k0 \<in> set (k # keys)" "dict_getitem metrics k0 = Inr e0"
         "dict_getitem e0 ''precision'' = Inr p0" "dict_getitem e0 ''recall'' = Inr r0"
         "4 * p0 + r0 = 0"
      by blast
    have "k0 \<noteq> k" using z e p r False by auto
    with z(1) have "k0 \<in> set keys" by simp
    with z same have b: "\<exists>k\<in>set keys. \<exists>e p r. dict_getitem m1 k = Inr e \<and>
           dict_getitem e ''precision'' = Inr p \<and> dict_getitem e ''recall'' = Inr r \<and>
           4 * p + r = 0"
      by (metis (no_types, lifting))
    from Cons.IH [OF d a b] step show ?thesis by simp
  qed
qed



lemma metrics_to_table_loop_error:
  "F2_loop (map fst metrics) metrics = Inl e \<Longrightarrow> metrics_to_table metrics = Inl e"
  by (simp add: metrics_to_table_def)




text \<open>
  Claim C10. The division in \<open>metrics_to_table\<close> is unguarded: on a dictionary whose
  entries all hold a precision and a recall, the loop ends normally exactly when
  \<open>4 * precision + recall\<close> is non-zero for every entry, and \<open>metrics_to_table\<close> raises
  \<open>ZeroDivisionError\<close> when some entry has a zero divisor, in particular when its
  precision and recall are both zero.
\<close>

theorem metrics_to_table_division_guard:
  assumes "distinct (map fst metrics)"
    and "\<forall>(k, e)\<in>set metrics. \<exists>p r. dict_getitem e ''precision'' = Inr p \<and>
           dict_getitem e ''recall'' = Inr r"
  shows
    "((\<exists>metrics'. F2_loop (map fst metrics) metrics = Inr metrics') \<longleftrightarrow>
        (\<forall>(k, e)\<in>set metrics. \<forall>p r.
           dict_getitem e ''precision'' = Inr p \<and> dict_getitem e ''recall'' = Inr r \<longrightarrow>
           4 * p + r \<noteq> 0)) \<and>
     ((\<exists>(k, e)\<in>set metrics. \<exists>p r.
           dict_getitem e ''precision'' = Inr p \<and> dict_getitem e ''recall'' = Inr r \<and>
           4 * p + r = 0) \<longrightarrow>
        metrics_to_table metrics = Inl ZeroDivisionError) \<and>
     ((\<exists>(k, e)\<in>set metrics.
           dict_getitem e ''precision'' = Inr 0 \<and> dict_getitem e ''recall'' = Inr 0) \<longrightarrow>
        metrics_to_table metrics = Inl ZeroDivisionError)"
proof -
  have mem: "\<And>k e. (k, e) \<in> set metrics \<longleftrightarrow> dict_getitem metrics k = Inr e"
    using dict_getitem_mem [OF assms(1)] by simp
  have pre: "\<forall>k\<in>set (map fst metrics). \<exists>e p r. dict_getitem metrics k = Inr e \<and>
           dict_getitem e ''precision'' = Inr p \<and> dict_getitem e ''recall'' = Inr r"
  proof
    fix k assume "k \<in> set (map fst metrics)"
    then obtain e where "(k, e) \<in> set metrics" by auto
    with assms(2) mem show "\<exists>e p r. dict_getitem metrics k = Inr e \<and>
           dict_getitem e ''precision'' = Inr p \<and> dict_getitem e ''recall'' = Inr r"
      by fastforce
  qed
  have zero: "F2_loop (map fst metrics) metrics = Inl ZeroDivisionError"
    if z: "\<exists>(k, e)\<in>set metrics. \<exists>p r.
           dict_getitem e ''precision'' = Inr p \<and> dict_getitem e ''recall'' = Inr r \<and>
           4 * p + r = 0"
  proof -
    from z obtain k e p r where ke: "(k, e) \<in> set metrics"
      and h: "dict_getitem e ''precision'' = Inr p" "dict_getitem e ''recall'' = Inr r"
             "4 * p + r = 0"
      by blast
    from ke have "k \<in> set (map fst metrics)" by force
    moreover from ke mem have "dict_getitem metrics k = Inr e" by simp
    ultimately have "\<exists>k\<in>set (map fst metrics). \<exists>e p r. dict_getitem metrics k = Inr e \<and>
           dict_getitem e ''precision'' = Inr p \<and> dict_getitem e ''recall'' = Inr r \<and>
           4 * p + r = 0"
      using h by blast
    from F2_loop_Inl [OF assms(1) pre this] show ?thesis .
  qed
  have nonzero: "\<exists>metrics'. F2_loop (map fst metrics) metrics = Inr metrics'"
    if nz: "\<forall>(k, e)\<in>set metrics. \<forall>p r.
           dict_getitem e ''precision'' = Inr p \<and> dict_getitem e ''recall'' = Inr r \<longrightarrow>
           4 * p + r \<noteq> 0"
  proof -
    have "\<forall>k\<in>set (map fst metrics). \<exists>e p r. dict_getitem metrics k = Inr e \<and>
           dict_getitem e ''precision'' = Inr p \<and> dict_getitem e ''recall'' = Inr r \<and>
           4 * p + r \<noteq> 0"
    proof
      fix k assume "k \<in> set (map fst metrics)"
      then obtain e where ke: "(k, e) \<in> set metrics" by auto
      with assms(2) obtain p r where
        "dict_getitem e ''precision'' = Inr p" "dict_getitem e ''recall'' = Inr r" by blast
      moreover with nz ke have "4 * p + r \<noteq> 0" by blast
      moreover from ke mem have "dict_getitem metrics k = Inr e" by simp
      ultimately show "\<exists>e p r. dict_getitem metrics k = Inr e \<and>
           dict_getitem e ''precision'' = Inr p \<and> dict_getitem e ''recall'' = Inr r \<and>
           4 * p + r \<noteq> 0" by blast
    qed
    from F2_loop_Inr [OF assms(1) this] show ?thesis by blast
  qed
  have a: "(\<exists>metrics'. F2_loop (map fst metrics) metrics = Inr metrics') \<longleftrightarrow>
        (\<forall>(k, e)\<in>set metrics. \<forall>p r.
           dict_getitem e ''precision'' = Inr p \<and> dict_getitem e ''recall'' = Inr r \<longrightarrow>
           4 * p + r \<noteq> 0)"
  proof
    assume "\<exists>metrics'. F2_loop (map fst metrics) metrics = Inr metrics'"
    then have "F2_loop (map fst metrics) metrics \<noteq> Inl ZeroDivisionError" by auto
    with zero show "\<forall>(k, e)\<in>set metrics. \<forall>p r.
           dict_getitem e ''precision'' = Inr p \<and> dict_getitem e ''recall'' = Inr r \<longrightarrow>
           4 * p + r \<noteq> 0" by blast
  next
    assume "\<forall>(k, e)\<in>set metrics. \<forall>p r.
           dict_getitem e ''precision'' = Inr p \<and> dict_getitem e ''recall'' = Inr r \<longrightarrow>
           4 * p + r \<noteq> 0"
    then show "\<exists>metrics'. F2_loop (map fst metrics) metrics = Inr metrics'" by (rule nonzero)
  qed
  have b: "(\<exists>(k, e)\<in>set metrics. \<exists>p r.
           dict_getitem e ''precision'' = Inr p \<and> dict_getitem e ''recall'' = Inr r \<and>
           4 * p + r = 0) \<longrightarrow>
        metrics_to_table metrics = Inl ZeroDivisionError"
    using zero metrics_to_table_loop_error by blast
  have c: "(\<exists>(k, e)\<in>set metrics.
           dict_getitem e ''precision'' = Inr 0 \<and> dict_getitem e ''recall'' = Inr 0) \<longrightarrow>
        metrics_to_table metrics = Inl ZeroDivisionError"
  proof
    assume "\<exists>(k, e)\<in>set metrics.
           dict_getitem e ''precision'' = Inr 0 \<and> dict_getitem e ''recall'' = Inr 0"
    then have "\<exists>(k, e)\<in>set metrics. \<exists>p r.
           dict_getitem e ''precision'' = Inr p \<and> dict_getitem e ''recall'' = Inr r \<and>
           4 * p + r = 0"
      by (fastforce intro: exI [of _ 0])
    with b show "metrics_to_table metrics = Inl ZeroDivisionError" by blast
  qed
  from a b c show ?thesis by blast
qed

theorem metrics_to_table_division_guard_witness:
  "distinct (map fst
      [(''exp1'', [(''precision'', 8 / 10), (''recall'', 5 / 10 :: real)]),
       (''exp2'', [(''precision'', 0), (''recall'', 0)])]) \<and>
   metrics_to_table
      [(''exp1'', [(''precision'', 8 / 10), (''recall'', 5 / 10)]),
       (''exp2'', [(''precision'', 0), (''recall'', 0)])] = Inl ZeroDivisionError"
proof -
  let ?M = "[(''exp1'', [(''precision'', 8 / 10), (''recall'', 5 / 10 :: real)]),
             (''exp2'', [(''precision'', 0), (''recall'', 0)])]"
  have d: "distinct (map fst ?M)" by simp
  have h: "\<forall>(k, e)\<in>set ?M. \<exists>p r. dict_getitem e ''precision'' = Inr p \<and>
             dict_getitem e ''recall'' = Inr r"
    by (auto intro: exI [of _ "4 / 5"] exI [of _ "1 / 2"])
  have z: "\<exists>(k, e)\<in>set ?M.
             dict_getitem e ''precision'' = Inr 0 \<and> dict_getitem e ''recall'' = Inr 0"
    by simp
  from metrics_to_table_division_guard [OF d h] z d show ?thesis by blast
qed

section \<open>Properties of the label check\<close>

lemma add_labels_set: "set (add_labels acc labels) = set acc \<union> set labels"
  by (induction labels arbitrary: acc) auto

lemma add_labels_distinct: "distinct acc \<Longrightarrow> distinct (add_labels acc labels)"
  by (induction labels arbitrary: acc) auto

lemma add_tags_set:
  "set (add_tags acc tags) = set acc \<union> (\<Union>t\<in>set tags. set (split_space t))"
  by (induction tags arbitrary: acc) (auto simp: add_labels_set)

lemma add_tags_distinct: "distinct acc \<Longrightarrow> distinct (add_tags acc tags)"
  by (induction tags arbitrary: acc) (auto simp: add_labels_distinct)

lemma add_tags_length:
  "length (add_tags [] tags) = card (\<Union>t\<in>set tags. set (split_space t))"
  using distinct_card [OF add_tags_distinct [of "[]" tags]] by (simp add: add_tags_set)

text \<open>
  Claim C8, amended. The lists built from the tag strings of the two splits hold the
  distinct labels of each split. The assertion of the training entry point compares
  their lengths only: it fails exactly when the numbers of distinct labels of the two
  splits differ. A failure implies that the two label sets differ, but label sets that
  differ and have the same size pass the check.
\<close>

theorem check_label_list_counts_only:
  "set (fst (label_list train_tags eval_tags)) = (\<Union>t\<in>set train_tags. set (split_space t)) \<and>
   set (snd (label_list train_tags eval_tags)) = (\<Union>t\<in>set eval_tags. set (split_space t)) \<and>
   (check_label_list train_tags eval_tags = Inl AssertionError \<longleftrightarrow>
      card (\<Union>t\<in>set train_tags. set (split_space t))
        \<noteq> card (\<Union>t\<in>set eval_tags. set (split_space t))) \<and>
   (check_label_list train_tags eval_tags = Inl AssertionError \<longrightarrow>
      (\<Union>t\<in>set train_tags. set (split_space t)) \<noteq> (\<Union>t\<in>set eval_tags. set (split_space t))) \<and>
   (card (\<Union>t\<in>set train_tags. set (split_space t))
        = card (\<Union>t\<in>set eval_tags. set (split_space t)) \<longrightarrow>
      check_label_list train_tags eval_tags = Inr (label_list train_tags eval_tags))"
  by (auto simp: check_label_list_def label_list_def Let_def add_tags_length add_tags_set)

theorem check_label_list_counts_only_witness:
  "check_label_list [''clear primary'', ''haze primary water''] [''clear primary'']
     = Inl AssertionError \<and>
   (\<Union>t\<in>set [''clear primary'', ''haze primary water'']. set (split_space t))
     \<noteq> (\<Union>t\<in>set [''clear primary'']. set (split_space t)) \<and>
   label_list [''clear primary'', ''haze primary water''] [''clear primary'']
     = ([''clear'', ''primary'', ''haze'', ''water''], [''clear'', ''primary''])"
proof -
  have a: "check_label_list [''clear primary'', ''haze primary water''] [''clear primary'']
     = Inl AssertionError"
    by (simp add: check_label_list_def label_list_def)
  have b: "label_list [''clear primary'', ''haze primary water''] [''clear primary'']
     = ([''clear'', ''primary'', ''haze'', ''water''], [''clear'', ''primary''])"
    by (simp add: label_list_def)
  from check_label_list_counts_only [of "[''clear primary'', ''haze primary water'']"
      "[''clear primary'']"] a b
  show ?thesis by blast
qed

theorem check_label_list_mismatch_counterexample:
  "''primary'' \<in> set (fst (label_list [''clear primary''] [''clear water''])) \<and>
   ''primary'' \<notin> set (snd (label_list [''clear primary''] [''clear water''])) \<and>
   check_label_list [''clear primary''] [''clear water'']
     = Inr ([''clear'', ''primary''], [''clear'', ''water''])"
  by (simp add: check_label_list_def label_list_def)

end
